theory Spec2Isabelle
  imports Main
begin

section \<open>Strings\<close>

text \<open>
  A Python \<open>str\<close> is a sequence of Unicode code points. The model is a list of natural
  numbers, one per code point. \<open>cps\<close> gives the code points of a literal of the source.
\<close>

type_synonym pystr = "nat list"

definition cps :: "string \<Rightarrow> pystr" where
  "cps s = map of_char s"

text \<open>
  The Unicode character database of the interpreter is not part of the program. What
  \<open>str.lower\<close> and \<open>str.isupper\<close> do beyond Latin-1 is taken as a parameter:
  \<open>lower_ctx u prev c rest\<close> is the lowercase form of the code point \<open>c\<close> when \<open>prev\<close> are
  the code points before it (nearest first) and \<open>rest\<close> the ones after it (the form of
  \<open>U+03A3\<close> depends on them, and a form can be several code points long), and
  \<open>uppercase u c\<close> says whether \<open>c\<close> is an uppercase letter.
\<close>

record unicode_data =
  lower_ctx :: "nat list \<Rightarrow> nat \<Rightarrow> nat list \<Rightarrow> nat list"
  uppercase :: "nat \<Rightarrow> bool"

section \<open>Case converter (\<open>camel_to_snake_case\<close>)\<close>

text \<open>
  The regular expression of the source,
  \<^verbatim>\<open>((?<=[a-z0-9])[A-Z]|(?!^)[A-Z](?=[a-z]))\<close>, uses three character classes. Without the
  IGNORECASE flag each is a plain range of code points.
\<close>

definition in_AZ :: "nat \<Rightarrow> bool" where
  "in_AZ c = (65 \<le> c \<and> c \<le> 90)"

definition in_az :: "nat \<Rightarrow> bool" where
  "in_az c = (97 \<le> c \<and> c \<le> 122)"

definition in_az09 :: "nat \<Rightarrow> bool" where
  "in_az09 c = (in_az c \<or> (48 \<le> c \<and> c \<le> 57))"

text \<open>
  \<open>(?<=[a-z0-9])\<close>: the character before the position exists and is in the class.
  \<open>prev\<close> is \<open>None\<close> at the start of the string.
\<close>

definition lookbehind_az09 :: "nat option \<Rightarrow> bool" where
  "lookbehind_az09 prev = (case prev of None \<Rightarrow> False | Some p \<Rightarrow> in_az09 p)"

text \<open>\<open>(?!^)\<close>: the position is not the start of the string (no MULTILINE flag).\<close>

definition not_at_start :: "nat option \<Rightarrow> bool" where
  "not_at_start prev = (prev \<noteq> None)"

text \<open>\<open>(?=[a-z])\<close>: a character follows and is in the class.\<close>

definition lookahead_az :: "pystr \<Rightarrow> bool" where
  "lookahead_az rest = (case rest of [] \<Rightarrow> False | d # _ \<Rightarrow> in_az d)"

text \<open>
  The pattern matches at a position when one of its two alternatives does. Both consume
  exactly one character of \<open>[A-Z]\<close>, which is group 1.
\<close>

definition pattern_matches :: "nat option \<Rightarrow> nat \<Rightarrow> pystr \<Rightarrow> bool" where
  "pattern_matches prev c rest =
     ((lookbehind_az09 prev \<and> in_AZ c) \<or> (not_at_start prev \<and> in_AZ c \<and> lookahead_az rest))"

text \<open>
  \<open>re.sub(pattern, r"_\1", name)\<close>: a left-to-right scan. Every match is one character long
  and the lookarounds read the original string, so each position is decided on its own:
  a matched character \<open>c\<close> is replaced by \<open>_c\<close>, any other character is copied.
\<close>

fun re_sub_from :: "nat option \<Rightarrow> pystr \<Rightarrow> pystr" where
  "re_sub_from prev [] = []"
| "re_sub_from prev (c # rest) =
     (if pattern_matches prev c rest
      then 95 # c # re_sub_from (Some c) rest
      else c # re_sub_from (Some c) rest)"

definition re_sub :: "pystr \<Rightarrow> pystr" where
  "re_sub name = re_sub_from None name"

text \<open>
  \<open>str.isupper()\<close> on one code point and \<open>str.lower()\<close>. Below \<open>U+0100\<close> both are fixed:
  the capitals are \<open>A\<close> to \<open>Z\<close> and \<open>U+00C0\<close> to \<open>U+00DE\<close> without the multiplication sign
  \<open>U+00D7\<close>, and \<open>lower\<close> moves each of them up by 32 and leaves every other code point.
  From \<open>U+0100\<close> on the Unicode data decide.
\<close>

definition latin1_upper :: "nat \<Rightarrow> bool" where
  "latin1_upper c = ((65 \<le> c \<and> c \<le> 90) \<or> (192 \<le> c \<and> c \<le> 222 \<and> c \<noteq> 215))"


definition lower_at :: "unicode_data \<Rightarrow> nat list \<Rightarrow> nat \<Rightarrow> nat list \<Rightarrow> nat list" where
  "lower_at u prev c rest =
     (if c < 256 then [if latin1_upper c then c + 32 else c] else lower_ctx u prev c rest)"

fun lower_from :: "unicode_data \<Rightarrow> nat list \<Rightarrow> pystr \<Rightarrow> pystr" where
  "lower_from u prev [] = []"
| "lower_from u prev (c # rest) = lower_at u prev c rest @ lower_from u (c # prev) rest"

definition lower :: "unicode_data \<Rightarrow> pystr \<Rightarrow> pystr" where
  "lower u s = lower_from u [] s"

text \<open>\<open>s.lstrip("_")\<close>: drop the leading underscores.\<close>

definition lstrip_underscore :: "pystr \<Rightarrow> pystr" where
  "lstrip_underscore s = dropWhile (\<lambda>c. c = 95) s"

definition camel_to_snake_case :: "unicode_data \<Rightarrow> pystr \<Rightarrow> pystr" where
  "camel_to_snake_case u name = lstrip_underscore (lower u (re_sub name))"

text \<open>
  An already snake-cased string: lowercase ASCII letters, digits and underscores only.
\<close>

definition snake_char :: "nat \<Rightarrow> bool" where
  "snake_char c = (in_az09 c \<or> c = 95)"

definition snake_cased :: "pystr \<Rightarrow> bool" where
  "snake_cased s = list_all snake_char s"

text \<open>
  An excerpt of the Unicode data, for worked examples: \<open>U+0130\<close> lowers to the two code
  points \<open>U+0069 U+0307\<close>, the Kelvin sign \<open>U+212A\<close> lowers to \<open>k\<close>, and the uppercase
  letter \<open>U+2102\<close> has no lowercase form and lowers to itself. The excerpt leaves every
  other code point as it is.
\<close>

definition unicode_excerpt :: unicode_data where
  "unicode_excerpt =
     \<lparr>lower_ctx = (\<lambda>prev c rest. if c = 304 then [105, 775] else if c = 8490 then [107] else [c]),
      uppercase = (\<lambda>c. c = 304 \<or> c = 8490 \<or> c = 8450)\<rparr>"

section \<open>Classes\<close>

text \<open>The exceptions that the modelled code can meet.\<close>

datatype py_error = AttributeError | TypeError | OtherError

text \<open>
  What the two class-level functions read of a class object. A concrete
  \<open>__tablename__\<close> is a string or \<open>None\<close>; a deferred one is a \<open>declared_attr\<close> object.
\<close>

datatype tablename_value = DeclaredAttr | Concrete "pystr option"

text \<open>
  An object that the attribute \<open>id\<close> evaluates to. Only its \<open>primary_key\<close> attribute is
  read; \<open>primary_key_attr\<close> is \<open>None\<close> for an object without such an attribute.
\<close>

datatype attr_object = AttrObject (primary_key_attr: "bool option")

text \<open>
  The entry of a class dictionary under the key \<open>id\<close>. A \<open>Plain\<close> entry is an object whose
  type has no \<open>__get__\<close> (a \<open>Column\<close>, say): attribute access returns it as it is. A
  \<open>Descriptor\<close> entry is an object whose type has \<open>__get__\<close> (a \<open>declared_attr\<close>, a
  \<open>property\<close>, an instrumented attribute): attribute access on a class returns what
  \<open>entry.__get__(None, cls)\<close> does, which may depend on the class \<open>cls\<close> the access goes
  through, given here by its identity, and may be an exception.
\<close>

datatype get_outcome = Returns attr_object | Raises py_error

datatype id_entry = Plain attr_object | Descriptor "nat \<Rightarrow> get_outcome"

text \<open>
  A class object: \<open>cls_ref\<close> is its identity (what \<open>is\<close> compares), \<open>cls_name\<close> its
  \<open>__name__\<close>. The three \<open>dict_\<close> fields are the entries of its own \<open>__dict__\<close> under the keys
  \<open>__abstract__\<close>, \<open>__tablename__\<close> and \<open>id\<close>, \<open>None\<close> when the key is absent.
  \<open>is_declarative_meta\<close> is \<open>isinstance(c, sa.orm.DeclarativeMeta)\<close>, and \<open>mro_tail\<close> is
  \<open>__mro__[1:]\<close>, the ancestors, most derived first.
\<close>

datatype pyclass = PyClass
  (cls_ref: nat)
  (cls_name: pystr)
  (dict_abstract: "bool option")
  (dict_tablename: "tablename_value option")
  (dict_id: "id_entry option")
  (is_declarative_meta: bool)
  (mro_tail: "pyclass list")

text \<open>\<open>cls.__mro__\<close> starts with the class itself.\<close>

definition cls_mro :: "pyclass \<Rightarrow> pyclass list" where
  "cls_mro c = c # mro_tail c"

subsection \<open>\<open>NameMixin.__tablename__\<close>\<close>







subsection \<open>\<open>should_set_tablename\<close>\<close>

text \<open>\<open>c.__dict__.get("__abstract__", False)\<close>\<close>

definition get_abstract :: "pyclass \<Rightarrow> bool" where
  "get_abstract c = (case dict_abstract c of None \<Rightarrow> False | Some b \<Rightarrow> b)"

text \<open>\<open>isinstance(v, sa.orm.declared_attr)\<close>\<close>

definition is_declared_attr :: "tablename_value \<Rightarrow> bool" where
  "is_declared_attr v = (case v of DeclaredAttr \<Rightarrow> True | Concrete _ \<Rightarrow> False)"

text \<open>
  The \<open>for base in cls.__mro__\<close> loop: a class without the key is skipped, the first class
  with it decides, and the end of the list is the \<open>return True\<close> after the loop.
\<close>

fun walk_mro :: "pyclass \<Rightarrow> pyclass list \<Rightarrow> bool" where
  "walk_mro cls [] = True"
| "walk_mro cls (base # bases) =
     (case dict_tablename base of
        None \<Rightarrow> walk_mro cls bases
      | Some v \<Rightarrow>
          if is_declared_attr v then False
          else \<not> (cls_ref base = cls_ref cls \<or> get_abstract base \<or> \<not> is_declarative_meta base))"

definition should_set_tablename :: "pyclass \<Rightarrow> bool" where
  "should_set_tablename cls =
     (if get_abstract cls \<or> \<not> list_ex is_declarative_meta (drop 1 (cls_mro cls))
      then False
      else walk_mro cls (cls_mro cls))"

section \<open>Representation of an instance (\<open>Base.__repr__\<close>)\<close>

text \<open>
  The components of an identity tuple are scalar key values: integers, strings, or values
  of another type (a UUID, a date, a float), which are given by what \<open>str\<close> returns for
  them. \<open>str\<close> of an integer is its decimal form, \<open>str\<close> of a string is the string.
\<close>

datatype scalar = IntKey int | StrKey pystr | OtherKey pystr

definition digit_char :: "nat \<Rightarrow> nat" where
  "digit_char d = 48 + d"

fun str_nat :: "nat \<Rightarrow> pystr" where
  "str_nat n = (if n < 10 then [digit_char n] else str_nat (n div 10) @ [digit_char (n mod 10)])"

declare str_nat.simps [simp del]

definition str_int :: "int \<Rightarrow> pystr" where
  "str_int i = (if i < 0 then 45 # str_nat (nat (- i)) else str_nat (nat i))"

fun py_str :: "scalar \<Rightarrow> pystr" where
  "py_str (IntKey i) = str_int i"
| "py_str (StrKey s) = s"
| "py_str (OtherKey s) = s"

text \<open>\<open>sep.join(parts)\<close>\<close>

fun join :: "pystr \<Rightarrow> pystr list \<Rightarrow> pystr" where
  "join sep [] = []"
| "join sep [x] = x"
| "join sep (x # y # ys) = x @ sep @ join sep (y # ys)"

text \<open>
  The three properties that \<open>__repr__\<close> reads of \<open>sa.inspect(self)\<close>. \<open>identity\<close> is \<open>None\<close>
  for a state without an identity key. \<open>ent_id\<close> is \<open>id(self)\<close>, a non-negative integer, and
  \<open>ent_type\<close> is \<open>type(self)\<close>.
\<close>

record instance_state =
  transient :: bool
  pending :: bool
  identity :: "scalar list option"

record entity =
  ent_type :: pyclass
  ent_id :: nat
  ent_state :: instance_state

text \<open>\<open>f"<{type(self).__name__} {pk}>"\<close>\<close>

definition format_repr :: "pystr \<Rightarrow> pystr \<Rightarrow> pystr" where
  "format_repr type_name pk = cps ''<'' @ type_name @ cps '' '' @ pk @ cps ''>''"

text \<open>\<open>map(str, None)\<close> raises \<open>TypeError\<close>: the only way \<open>__repr__\<close> can fail.\<close>

definition repr :: "entity \<Rightarrow> py_error + pystr" where
  "repr self =
     (let state = ent_state self in
      if transient state then
        Inr (format_repr (cls_name (ent_type self))
               (cps ''(transient '' @ str_nat (ent_id self) @ cps '')''))
      else if pending state then
        Inr (format_repr (cls_name (ent_type self))
               (cps ''(pending '' @ str_nat (ent_id self) @ cps '')''))
      else
        (case identity state of
           None \<Rightarrow> Inl TypeError
         | Some key \<Rightarrow>
             Inr (format_repr (cls_name (ent_type self)) (join (cps '', '') (map py_str key)))))"

section \<open>Example classes and instances\<close>

text \<open>
  \<open>object\<close>, a declarative base \<open>Model\<close> (its metaclass derives from \<open>DeclarativeMeta\<close>, and so
  does the metaclass of every class built on it), \<open>NameMixin\<close> itself, whose own dictionary
  holds the \<open>declared_attr\<close> named \<open>__tablename__\<close>, and a plain mixin that brings the
  primary key \<open>id\<close> as a \<open>Column\<close>.
\<close>

definition object_cls :: pyclass where
  "object_cls = PyClass 0 (cps ''object'') None None None False []"

definition model_cls :: pyclass where
  "model_cls = PyClass 1 (cps ''Model'') None None None True [object_cls]"

definition name_mixin :: pyclass where
  "name_mixin = PyClass 2 (cps ''NameMixin'') None (Some DeclaredAttr) None False [object_cls]"

definition pk_column :: id_entry where
  "pk_column = Plain (AttrObject (Some True))"

definition id_mixin :: pyclass where
  "id_mixin = PyClass 3 (cps ''IdMixin'') None None (Some pk_column) False [object_cls]"

text \<open>\<open>class UserAccount(NameMixin, Model): id = Column(Integer, primary_key=True)\<close>\<close>

definition user_account :: pyclass where
  "user_account =
     PyClass 4 (cps ''UserAccount'') None None (Some pk_column) True
       [name_mixin, model_cls, object_cls]"

text \<open>\<open>class Child(IdMixin, NameMixin, Model): pass\<close>, with no \<open>id\<close> of its own.\<close>

definition child_cls :: pyclass where
  "child_cls =
     PyClass 5 (cps ''Child'') None None None True
       [id_mixin, name_mixin, model_cls, object_cls]"

text \<open>
  \<open>class Shadow(IdMixin, NameMixin, Model): id = Column(Integer)\<close>: its own \<open>id\<close> is not a
  primary key and hides the one of the mixin.
\<close>

definition shadow_cls :: pyclass where
  "shadow_cls =
     PyClass 6 (cps ''Shadow'') None None (Some (Plain (AttrObject (Some False)))) True
       [id_mixin, name_mixin, model_cls, object_cls]"

text \<open>\<open>class Tag(NameMixin, Model): label = Column(String)\<close>: no \<open>id\<close> anywhere.\<close>

definition tag_cls :: pyclass where
  "tag_cls = PyClass 7 (cps ''Tag'') None None None True [name_mixin, model_cls, object_cls]"

text \<open>
  A mixin whose \<open>id\<close> is a \<open>declared_attr\<close> that returns a primary-key column for every
  class, and \<open>class DeclIdChild(DeclIdMixin, NameMixin, Model): pass\<close>.
\<close>

definition decl_id_mixin :: pyclass where
  "decl_id_mixin =
     PyClass 15 (cps ''DeclIdMixin'') None None
       (Some (Descriptor (\<lambda>owner. Returns (AttrObject (Some True))))) False [object_cls]"

definition decl_id_child :: pyclass where
  "decl_id_child =
     PyClass 16 (cps ''DeclIdChild'') None None None True
       [decl_id_mixin, name_mixin, model_cls, object_cls]"

text \<open>
  \<open>class Guarded(NameMixin, Model)\<close> whose \<open>id\<close> is a descriptor that raises
  \<open>AttributeError\<close> on class access, and \<open>class Broken(NameMixin, Model)\<close> whose \<open>id\<close> is a
  \<open>declared_attr\<close> that raises another exception.
\<close>

definition guarded_cls :: pyclass where
  "guarded_cls =
     PyClass 17 (cps ''Guarded'') None None (Some (Descriptor (\<lambda>owner. Raises AttributeError)))
       True [name_mixin, model_cls, object_cls]"

definition broken_cls :: pyclass where
  "broken_cls =
     PyClass 18 (cps ''Broken'') None None (Some (Descriptor (\<lambda>owner. Raises OtherError)))
       True [name_mixin, model_cls, object_cls]"

text \<open>\<open>class Parent(Model): __tablename__ = "parent"\<close> and \<open>class Joined(Parent): pass\<close>\<close>

definition parent_cls :: pyclass where
  "parent_cls =
     PyClass 8 (cps ''Parent'') None (Some (Concrete (Some (cps ''parent'')))) None True
       [model_cls, object_cls]"

definition joined_cls :: pyclass where
  "joined_cls =
     PyClass 9 (cps ''Joined'') None None None True [parent_cls, model_cls, object_cls]"

text \<open>\<open>class Timestamped(Model): __abstract__ = True\<close>\<close>

definition abstract_cls :: pyclass where
  "abstract_cls =
     PyClass 10 (cps ''Timestamped'') (Some True) None None True [model_cls, object_cls]"

text \<open>
  \<open>class Deferred(Parent)\<close> with its own \<open>@declared_attr\<close> \<open>__tablename__\<close>, on top of a
  concrete, mapped, non-abstract parent.
\<close>

definition deferred_cls :: pyclass where
  "deferred_cls =
     PyClass 11 (cps ''Deferred'') None (Some DeclaredAttr) None True
       [parent_cls, model_cls, object_cls]"

text \<open>\<open>class Plain(IdMixin, Model): pass\<close>: no class of the MRO names a table.\<close>

definition plain_cls :: pyclass where
  "plain_cls =
     PyClass 12 (cps ''Plain'') None None None True [id_mixin, model_cls, object_cls]"

text \<open>
  Two classes called \<open>Name\<close> that differ in their table name, and instances of them.
\<close>

definition name_cls_a :: pyclass where
  "name_cls_a =
     PyClass 13 (cps ''Name'') None (Some (Concrete (Some (cps ''names'')))) None True
       [model_cls, object_cls]"

definition name_cls_b :: pyclass where
  "name_cls_b =
     PyClass 14 (cps ''Name'') None (Some (Concrete (Some (cps ''labels'')))) None True
       [model_cls, object_cls]"

definition transient_state :: instance_state where
  "transient_state = \<lparr>transient = True, pending = False, identity = None\<rparr>"

definition pending_state :: instance_state where
  "pending_state = \<lparr>transient = False, pending = True, identity = None\<rparr>"

definition persisted_state :: instance_state where
  "persisted_state =
     \<lparr>transient = False, pending = False, identity = Some [IntKey 1, StrKey (cps ''a'')]\<rparr>"

text \<open>A three-part key \<open>(7, "k", 9)\<close>.\<close>

definition persisted_state3 :: instance_state where
  "persisted_state3 =
     \<lparr>transient = False, pending = False,
      identity = Some [IntKey 7, StrKey (cps ''k''), IntKey 9]\<rparr>"

definition entity_of :: "pyclass \<Rightarrow> instance_state \<Rightarrow> entity" where
  "entity_of c st = \<lparr>ent_type = c, ent_id = 140234, ent_state = st\<rparr>"

section \<open>Facts about the case converter\<close>

lemma snake_char_plain: "snake_char c \<Longrightarrow> c < 256 \<and> \<not> latin1_upper c \<and> \<not> in_AZ c"
  by (auto simp: snake_char_def in_az09_def in_az_def in_AZ_def latin1_upper_def)

lemma re_sub_from_no_AZ: "\<forall>c\<in>set s. \<not> in_AZ c \<Longrightarrow> re_sub_from prev s = s"
  by (induction s arbitrary: prev) (auto simp: pattern_matches_def)


lemma lower_from_plain:
  "\<forall>c\<in>set s. c < 256 \<and> \<not> latin1_upper c \<Longrightarrow> lower_from u prev s = s"
  by (induction s arbitrary: prev) (auto simp: lower_at_def)






lemma lstrip_idem: "lstrip_underscore (lstrip_underscore s) = lstrip_underscore s"
  by (simp add: lstrip_underscore_def)



lemma convert_snake:
  assumes "snake_cased s"
  shows "camel_to_snake_case u s = lstrip_underscore s"
proof -
  from assms have p: "\<forall>c\<in>set s. c < 256 \<and> \<not> latin1_upper c" and q: "\<forall>c\<in>set s. \<not> in_AZ c"
    using snake_char_plain by (auto simp: snake_cased_def list_all_iff)
  from q have "re_sub s = s" by (simp add: re_sub_def re_sub_from_no_AZ)
  moreover from p have "lower u s = s" by (simp add: lower_def lower_from_plain)
  ultimately show ?thesis by (simp add: camel_to_snake_case_def)
qed

lemma snake_cased_lstrip: "snake_cased s \<Longrightarrow> snake_cased (lstrip_underscore s)"
  unfolding snake_cased_def list_all_iff lstrip_underscore_def
  using set_dropWhileD by fast

text \<open>
  Claim C6. The four examples of the specification: \<open>User\<close>, \<open>UserAccount\<close>,
  \<open>HTTPServer\<close> and \<open>ABTest2Variant\<close> convert to \<open>user\<close>, \<open>user_account\<close>,
  \<open>http_server\<close> and \<open>ab_test2_variant\<close>, whatever the Unicode data beyond Latin-1.
\<close>

theorem camel_to_snake_case_examples:
  "camel_to_snake_case u (cps ''User'') = cps ''user'' \<and>
   camel_to_snake_case u (cps ''UserAccount'') = cps ''user_account'' \<and>
   camel_to_snake_case u (cps ''HTTPServer'') = cps ''http_server'' \<and>
   camel_to_snake_case u (cps ''ABTest2Variant'') = cps ''ab_test2_variant''"
proof -
  have "camel_to_snake_case u (cps ''User'') = cps ''user''" by code_simp
  moreover have "camel_to_snake_case u (cps ''UserAccount'') = cps ''user_account''"
    by code_simp
  moreover have "camel_to_snake_case u (cps ''HTTPServer'') = cps ''http_server''"
    by code_simp
  moreover have "camel_to_snake_case u (cps ''ABTest2Variant'') = cps ''ab_test2_variant''"
    by code_simp
  ultimately show ?thesis by blast
qed

text \<open>
  Claim C7. On every string that is already snake-cased (lowercase letters, digits and
  underscores, no capital), converting twice gives the same result as converting once.
\<close>

theorem camel_to_snake_case_idempotent_on_snake:
  assumes "snake_cased s"
  shows "camel_to_snake_case u (camel_to_snake_case u s) = camel_to_snake_case u s"
proof -
  from assms have "snake_cased (lstrip_underscore s)" by (rule snake_cased_lstrip)
  then have "camel_to_snake_case u (lstrip_underscore s) = lstrip_underscore (lstrip_underscore s)"
    by (rule convert_snake)
  with assms show ?thesis by (simp add: convert_snake lstrip_idem)
qed

theorem camel_to_snake_case_idempotent_on_snake_witness:
  "snake_cased (cps ''_user_account2'') \<and>
   camel_to_snake_case unicode_excerpt (cps ''_user_account2'') = cps ''user_account2'' \<and>
   camel_to_snake_case unicode_excerpt (camel_to_snake_case unicode_excerpt (cps ''_user_account2'')) =
     cps ''user_account2''"
proof -
  have h: "snake_cased (cps ''_user_account2'')" by code_simp
  have v: "camel_to_snake_case unicode_excerpt (cps ''_user_account2'') = cps ''user_account2''"
    by code_simp
  from h camel_to_snake_case_idempotent_on_snake [OF h, of unicode_excerpt] v
  show ?thesis by simp
qed




section \<open>Facts about \<open>NameMixin.__tablename__\<close>\<close>

lemmas example_defs =
  object_cls_def model_cls_def name_mixin_def id_mixin_def user_account_def child_cls_def
  shadow_cls_def tag_cls_def parent_cls_def joined_cls_def abstract_cls_def deferred_cls_def
  plain_cls_def name_cls_a_def name_cls_b_def decl_id_mixin_def decl_id_child_def
  guarded_cls_def broken_cls_def pk_column_def




lemma walk_mro_skip:
  "\<forall>p\<in>set pre. dict_tablename p = None \<Longrightarrow> walk_mro cls (pre @ rest) = walk_mro cls rest"
  by (induction pre) auto








section \<open>Facts about \<open>should_set_tablename\<close> and \<open>Base.__repr__\<close>\<close>

text \<open>
  Claim C2. For a class that passes the initial screen (not abstract itself, some ancestor
  an instance of \<open>DeclarativeMeta\<close>): when the first class of its MRO, itself included, that
  has \<open>__tablename__\<close> in its own dictionary holds a concrete value there, the function
  returns true exactly when that class is not the candidate itself, is not abstract and is
  an instance of \<open>DeclarativeMeta\<close>. The walk ends there: whatever follows that class in the
  MRO does not change its result.
\<close>

theorem should_set_tablename_concrete:
  assumes "\<not> get_abstract cls"
    and "list_ex is_declarative_meta (drop 1 (cls_mro cls))"
    and "cls_mro cls = pre @ base # post"
    and "\<forall>p\<in>set pre. dict_tablename p = None"
    and "dict_tablename base = Some (Concrete v)"
  shows "should_set_tablename cls =
           (cls_ref base \<noteq> cls_ref cls \<and> \<not> get_abstract base \<and> is_declarative_meta base) \<and>
         walk_mro cls (pre @ base # post') = walk_mro cls (pre @ base # post)"
proof -
  have w: "walk_mro cls (pre @ base # rest) =
        (cls_ref base \<noteq> cls_ref cls \<and> \<not> get_abstract base \<and> is_declarative_meta base)" for rest
    using assms(4,5) by (simp add: walk_mro_skip is_declared_attr_def)
  from assms(1,2) have "should_set_tablename cls = walk_mro cls (cls_mro cls)"
    by (simp add: should_set_tablename_def)
  with w assms(3) show ?thesis by simp
qed

theorem should_set_tablename_concrete_witness:
  "should_set_tablename joined_cls = True \<and> should_set_tablename parent_cls = False"
proof -
  have j: "should_set_tablename joined_cls =
           (cls_ref parent_cls \<noteq> cls_ref joined_cls \<and> \<not> get_abstract parent_cls \<and>
            is_declarative_meta parent_cls)"
    using should_set_tablename_concrete
      [of joined_cls "[joined_cls]" parent_cls "[model_cls, object_cls]" "Some (cps ''parent'')" "[]"]
    by (simp add: cls_mro_def get_abstract_def example_defs)
  have p: "should_set_tablename parent_cls =
           (cls_ref parent_cls \<noteq> cls_ref parent_cls \<and> \<not> get_abstract parent_cls \<and>
            is_declarative_meta parent_cls)"
    using should_set_tablename_concrete
      [of parent_cls "[]" parent_cls "[model_cls, object_cls]" "Some (cps ''parent'')" "[]"]
    by (simp add: cls_mro_def get_abstract_def example_defs)
  from j p show ?thesis
    by (simp add: get_abstract_def example_defs)
qed

text \<open>
  Claim C3. For a class marked abstract in its own dictionary, and for a class none of whose
  ancestors (itself excluded) is an instance of \<open>DeclarativeMeta\<close>, the function returns
  false.
\<close>

theorem should_set_tablename_screen:
  "get_abstract cls \<or> \<not> list_ex is_declarative_meta (drop 1 (cls_mro cls)) \<Longrightarrow>
   should_set_tablename cls = False"
  by (simp add: should_set_tablename_def)

theorem should_set_tablename_screen_witness:
  "get_abstract abstract_cls \<and> should_set_tablename abstract_cls = False \<and>
   list_ex is_declarative_meta (drop 1 (cls_mro id_mixin)) = False \<and>
   should_set_tablename id_mixin = False"
proof -
  have a: "get_abstract abstract_cls" by (simp add: get_abstract_def abstract_cls_def)
  have m: "\<not> list_ex is_declarative_meta (drop 1 (cls_mro id_mixin))"
    by (simp add: cls_mro_def id_mixin_def object_cls_def)
  from a should_set_tablename_screen [of abstract_cls]
  have "should_set_tablename abstract_cls = False" by blast
  moreover from m should_set_tablename_screen [of id_mixin]
  have "should_set_tablename id_mixin = False" by blast
  ultimately show ?thesis using a m by blast
qed

text \<open>
  Claim C4. For a class whose own dictionary holds a \<open>declared_attr\<close> under
  \<open>__tablename__\<close>, the function returns false, whatever its ancestors declare.
\<close>

theorem should_set_tablename_declared_attr:
  "dict_tablename cls = Some DeclaredAttr \<Longrightarrow> should_set_tablename cls = False"
  by (simp add: should_set_tablename_def cls_mro_def is_declared_attr_def)

theorem should_set_tablename_declared_attr_witness:
  "dict_tablename deferred_cls = Some DeclaredAttr \<and>
   should_set_tablename deferred_cls = False \<and>
   should_set_tablename joined_cls = True"
proof -
  have d: "dict_tablename deferred_cls = Some DeclaredAttr" by (simp add: deferred_cls_def)
  from d should_set_tablename_declared_attr [of deferred_cls]
  have "should_set_tablename deferred_cls = False" by blast
  moreover have "should_set_tablename joined_cls = True" by code_simp
  ultimately show ?thesis using d by blast
qed

text \<open>
  Claim C5. For a class that is not abstract itself, has an ancestor that is an instance of
  \<open>DeclarativeMeta\<close>, and in whose MRO (itself included) no class has \<open>__tablename__\<close> in
  its own dictionary, the function returns true.
\<close>

theorem should_set_tablename_default:
  assumes "\<not> get_abstract cls"
    and "list_ex is_declarative_meta (drop 1 (cls_mro cls))"
    and "\<forall>b\<in>set (cls_mro cls). dict_tablename b = None"
  shows "should_set_tablename cls = True"
proof -
  from assms(3) have "walk_mro cls (cls_mro cls @ []) = walk_mro cls []"
    by (rule walk_mro_skip)
  with assms(1,2) show ?thesis by (simp add: should_set_tablename_def)
qed

theorem should_set_tablename_default_witness:
  "get_abstract plain_cls = False \<and>
   list_ex is_declarative_meta (drop 1 (cls_mro plain_cls)) \<and>
   should_set_tablename plain_cls = True"
proof -
  have a: "\<not> get_abstract plain_cls" by (simp add: get_abstract_def plain_cls_def)
  have m: "list_ex is_declarative_meta (drop 1 (cls_mro plain_cls))"
    by (simp add: cls_mro_def example_defs)
  have n: "\<forall>b\<in>set (cls_mro plain_cls). dict_tablename b = None"
    by (simp add: cls_mro_def example_defs)
  from should_set_tablename_default [OF a m n] a m show ?thesis by simp
qed

text \<open>Decimal numerals.\<close>

lemma str_nat_small: "n < 10 \<Longrightarrow> str_nat n = [48 + n]"
  by (simp add: str_nat.simps [of n] digit_char_def)

lemma str_nat_large:
  "\<not> n < 10 \<Longrightarrow> str_nat n = str_nat (n div 10) @ [48 + n mod 10]"
  by (simp add: str_nat.simps [of n] digit_char_def)

lemma str_nat_value: "foldl (\<lambda>acc c. 10 * acc + (c - 48)) 0 (str_nat n) = n"
proof (induction n rule: str_nat.induct)
  case (1 n)
  show ?case
  proof (cases "n < 10")
    case True
    then show ?thesis by (simp add: str_nat_small)
  next
    case False
    with 1 have "foldl (\<lambda>acc c. 10 * acc + (c - 48)) 0 (str_nat (n div 10)) = n div 10"
      by simp
    with False show ?thesis by (simp add: str_nat_large)
  qed
qed

lemma str_nat_digits: "c \<in> set (str_nat n) \<Longrightarrow> 48 \<le> c \<and> c \<le> 57"
proof (induction n rule: str_nat.induct)
  case (1 n)
  show ?case
  proof (cases "n < 10")
    case True
    with "1.prems" show ?thesis by (simp add: str_nat_small)
  next
    case False
    have "n mod 10 < 10" by simp
    then have "48 + n mod 10 \<le> 57" by linarith
    with False 1 show ?thesis by (auto simp: str_nat_large)
  qed
qed

lemma str_nat_leading: "n \<noteq> 0 \<Longrightarrow> \<exists>c t. str_nat n = c # t \<and> c \<noteq> 48"
proof (induction n rule: str_nat.induct)
  case (1 n)
  show ?case
  proof (cases "n < 10")
    case True
    with "1.prems" show ?thesis by (simp add: str_nat_small)
  next
    case False
    then have "n div 10 \<noteq> 0" by simp
    with False 1 obtain c t where "str_nat (n div 10) = c # t" and "c \<noteq> 48" by blast
    with False show ?thesis by (simp add: str_nat_large)
  qed
qed

lemma str_nat_0: "str_nat 0 = [48]"
  by (simp add: str_nat_small)

lemma str_int_1: "str_int 1 = cps ''1''"
  by (simp add: str_int_def str_nat_small cps_def)

lemma str_nat_140234: "str_nat 140234 = cps ''140234''"
  by (simp add: str_nat.simps digit_char_def cps_def)

text \<open>\<open>join\<close> puts the separator before every part but the first and keeps the order.\<close>

lemma join_Cons: "join sep (x # xs) = x @ concat (map (\<lambda>y. sep @ y) xs)"
  by (induction xs arbitrary: x) auto

lemma repr_fails_iff:
  "(\<exists>e. repr self = Inl e) \<longleftrightarrow>
   (\<not> transient (ent_state self) \<and> \<not> pending (ent_state self) \<and>
    identity (ent_state self) = None)"
  by (simp add: repr_def Let_def split: option.splits)

text \<open>
  Claim C8. A transient instance renders as \<open><Name (transient handle)>\<close> and a pending one
  as \<open><Name (pending handle)>\<close>, the handle being \<open>id(self)\<close> written in decimal: digits
  only, no leading zero, reading back as the number. A persisted instance renders as
  \<open><Name pk>\<close>, where \<open>pk\<close> is the string form of the first component of the identity
  tuple followed, for each further component in order, by a comma, a space and the string
  form of that component (and is empty for an empty tuple). The string form of a string
  is the string, that of another value is what \<open>str\<close> returns for it, and that of an
  integer is its decimal numeral, with a minus sign when negative. A persisted instance of
  a class \<open>Name\<close> with the key \<open>(1, "a")\<close> renders as \<open><Name 1, a>\<close>.
\<close>

theorem repr_by_status:
  "(transient (ent_state self) \<longrightarrow>
      repr self =
        Inr (cps ''<'' @ cls_name (ent_type self) @ cps '' (transient '' @
             str_nat (ent_id self) @ cps '')>'')) \<and>
   (\<not> transient (ent_state self) \<and> pending (ent_state self) \<longrightarrow>
      repr self =
        Inr (cps ''<'' @ cls_name (ent_type self) @ cps '' (pending '' @
             str_nat (ent_id self) @ cps '')>'')) \<and>
   (\<not> transient (ent_state self) \<and> \<not> pending (ent_state self) \<and>
    identity (ent_state self) = Some (k # ks) \<longrightarrow>
      repr self =
        Inr (cps ''<'' @ cls_name (ent_type self) @ cps '' '' @
             py_str k @ concat (map (\<lambda>c. cps '', '' @ py_str c) ks) @ cps ''>'')) \<and>
   (\<not> transient (ent_state self) \<and> \<not> pending (ent_state self) \<and>
    identity (ent_state self) = Some [] \<longrightarrow>
      repr self = Inr (cps ''<'' @ cls_name (ent_type self) @ cps '' >'')) \<and>
   py_str (StrKey s) = s \<and> py_str (OtherKey s) = s \<and>
   (0 \<le> i \<longrightarrow> py_str (IntKey i) = str_nat (nat i)) \<and>
   (i < 0 \<longrightarrow> py_str (IntKey i) = 45 # str_nat (nat (- i))) \<and>
   foldl (\<lambda>acc c. 10 * acc + (c - 48)) 0 (str_nat n) = n \<and>
   (\<forall>c\<in>set (str_nat n). 48 \<le> c \<and> c \<le> 57) \<and>
   (n \<noteq> 0 \<longrightarrow> (\<exists>c t. str_nat n = c # t \<and> c \<noteq> 48)) \<and>
   str_nat 0 = [48] \<and>
   (\<not> transient (ent_state self) \<and> \<not> pending (ent_state self) \<and>
    identity (ent_state self) = Some [IntKey 1, StrKey (cps ''a'')] \<and>
    cls_name (ent_type self) = cps ''Name'' \<longrightarrow>
      repr self = Inr (cps ''<Name 1, a>''))"
proof -
  have t: "transient (ent_state self) \<longrightarrow>
      repr self =
        Inr (cps ''<'' @ cls_name (ent_type self) @ cps '' (transient '' @
             str_nat (ent_id self) @ cps '')>'')"
    by (simp add: repr_def format_repr_def Let_def cps_def)
  have p: "\<not> transient (ent_state self) \<and> pending (ent_state self) \<longrightarrow>
      repr self =
        Inr (cps ''<'' @ cls_name (ent_type self) @ cps '' (pending '' @
             str_nat (ent_id self) @ cps '')>'')"
    by (simp add: repr_def format_repr_def Let_def cps_def)
  have k: "\<not> transient (ent_state self) \<and> \<not> pending (ent_state self) \<and>
    identity (ent_state self) = Some (k # ks) \<longrightarrow>
      repr self =
        Inr (cps ''<'' @ cls_name (ent_type self) @ cps '' '' @
             py_str k @ concat (map (\<lambda>c. cps '', '' @ py_str c) ks) @ cps ''>'')"
    by (simp add: repr_def format_repr_def Let_def join_Cons comp_def)
  have e: "\<not> transient (ent_state self) \<and> \<not> pending (ent_state self) \<and>
    identity (ent_state self) = Some [] \<longrightarrow>
      repr self = Inr (cps ''<'' @ cls_name (ent_type self) @ cps '' >'')"
    by (simp add: repr_def format_repr_def Let_def cps_def)
  have s: "py_str (StrKey s) = s \<and> py_str (OtherKey s) = s \<and>
   (0 \<le> i \<longrightarrow> py_str (IntKey i) = str_nat (nat i)) \<and>
   (i < 0 \<longrightarrow> py_str (IntKey i) = 45 # str_nat (nat (- i)))"
    by (simp add: str_int_def)
  have d: "foldl (\<lambda>acc c. 10 * acc + (c - 48)) 0 (str_nat n) = n \<and>
   (\<forall>c\<in>set (str_nat n). 48 \<le> c \<and> c \<le> 57) \<and>
   (n \<noteq> 0 \<longrightarrow> (\<exists>c t. str_nat n = c # t \<and> c \<noteq> 48)) \<and>
   str_nat 0 = [48]"
    using str_nat_value str_nat_digits str_nat_leading str_nat_0 by blast
  have x: "\<not> transient (ent_state self) \<and> \<not> pending (ent_state self) \<and>
    identity (ent_state self) = Some [IntKey 1, StrKey (cps ''a'')] \<and>
    cls_name (ent_type self) = cps ''Name'' \<longrightarrow>
      repr self = Inr (cps ''<Name 1, a>'')"
    by (simp add: repr_def format_repr_def Let_def str_int_1 cps_def)
  from t p k e s d x show ?thesis by blast
qed

theorem repr_by_status_witness:
  "repr (entity_of name_cls_a transient_state) = Inr (cps ''<Name (transient 140234)>'') \<and>
   repr (entity_of name_cls_a pending_state) = Inr (cps ''<Name (pending 140234)>'') \<and>
   repr (entity_of name_cls_a persisted_state) = Inr (cps ''<Name 1, a>'') \<and>
   repr (entity_of name_cls_a persisted_state3) = Inr (cps ''<Name 7, k, 9>'')"
proof -
  have s7: "str_nat 7 = cps ''7''" and s9: "str_nat 9 = cps ''9''"
    by (simp_all add: str_nat_small cps_def)
  have "repr (entity_of name_cls_a transient_state) = Inr (cps ''<Name (transient 140234)>'')"
    using repr_by_status [of "entity_of name_cls_a transient_state"]
    by (simp add: entity_of_def transient_state_def name_cls_a_def str_nat_140234 cps_def)
  moreover have "repr (entity_of name_cls_a pending_state) = Inr (cps ''<Name (pending 140234)>'')"
    using repr_by_status [of "entity_of name_cls_a pending_state"]
    by (simp add: entity_of_def pending_state_def name_cls_a_def str_nat_140234 cps_def)
  moreover have "repr (entity_of name_cls_a persisted_state) = Inr (cps ''<Name 1, a>'')"
    using repr_by_status [of "entity_of name_cls_a persisted_state"]
    by (simp add: entity_of_def persisted_state_def name_cls_a_def)
  moreover have "repr (entity_of name_cls_a persisted_state3) = Inr (cps ''<Name 7, k, 9>'')"
    using repr_by_status [of "entity_of name_cls_a persisted_state3" "IntKey 7"
        "[StrKey (cps ''k''), IntKey 9]"]
    by (simp add: entity_of_def persisted_state3_def name_cls_a_def s7 s9 cps_def)
  ultimately show ?thesis by blast
qed

text \<open>
  Claim C9. The formatter does not read the table name: two instances with the same class
  name, the same persistence status, the same handle and, when persisted, the same identity
  tuple have the same representation, whatever else their classes hold.
\<close>

theorem repr_ignores_tablename:
  assumes "cls_name (ent_type a) = cls_name (ent_type b)"
    and "transient (ent_state a) = transient (ent_state b)"
    and "pending (ent_state a) = pending (ent_state b)"
    and "ent_id a = ent_id b"
    and "\<not> transient (ent_state a) \<and> \<not> pending (ent_state a) \<longrightarrow>
         identity (ent_state a) = identity (ent_state b)"
  shows "repr a = repr b"
  using assms by (simp add: repr_def Let_def split: option.splits)

theorem repr_ignores_tablename_witness:
  "dict_tablename name_cls_a \<noteq> dict_tablename name_cls_b \<and>
   repr (entity_of name_cls_a persisted_state) = repr (entity_of name_cls_b persisted_state) \<and>
   repr (entity_of name_cls_a pending_state) = repr (entity_of name_cls_b pending_state)"
proof -
  have d: "dict_tablename name_cls_a \<noteq> dict_tablename name_cls_b"
    by (simp add: name_cls_a_def name_cls_b_def cps_def)
  have "repr (entity_of name_cls_a persisted_state) = repr (entity_of name_cls_b persisted_state)"
    using repr_ignores_tablename
      [of "entity_of name_cls_a persisted_state" "entity_of name_cls_b persisted_state"]
    by (simp add: entity_of_def name_cls_a_def name_cls_b_def)
  moreover
  have "repr (entity_of name_cls_a pending_state) = repr (entity_of name_cls_b pending_state)"
    using repr_ignores_tablename
      [of "entity_of name_cls_a pending_state" "entity_of name_cls_b pending_state"]
    by (simp add: entity_of_def name_cls_a_def name_cls_b_def)
  ultimately show ?thesis using d by blast
qed

end
